theory Spec2Isabelle
  imports Complex_Main "HOL-Library.AList"
begin

section \<open>Grid index arithmetic of \<open>HWs/HW2/visualize.py\<close>\<close>

text \<open>
  A coordinate is a number, here a \<open>real\<close>. The functions \<open>to_lat_index\<close>,
  \<open>to_lon_index\<close> and \<open>get_mask\<close> below compute with exact arithmetic, which is what
  Python does on \<open>int\<close> arguments and on every \<open>float\<close> argument whose differences
  and products are representable; \<open>to_lat_index_float\<close> is the same computation on any
  \<open>float\<close> argument, with the rounding of each operation made explicit.
  Python's \<open>int(x)\<close> on a number truncates toward zero.
\<close>

definition py_int :: "real \<Rightarrow> int" where
  "py_int x = (if 0 \<le> x then \<lfloor>x\<rfloor> else \<lceil>x\<rceil>)"

text \<open>\<open>DataSet.to_lat_index\<close>: \<open>return int((90 - lat) * 4)\<close>.\<close>

definition to_lat_index :: "real \<Rightarrow> int" where
  "to_lat_index lat = py_int ((90 - lat) * 4)"



text \<open>\<open>DataSet.to_lon_index\<close>: \<open>return int((lon + 180) * 4)\<close>.\<close>

definition to_lon_index :: "real \<Rightarrow> int" where
  "to_lon_index lon = py_int ((lon + 180) * 4)"

text \<open>A Python \<open>slice(start, stop)\<close> object (no step).\<close>

datatype slice = Slice (start: int) (stop: int)

text \<open>\<open>DataSet.get_mask\<close>.\<close>

definition get_mask :: "real \<Rightarrow> real \<Rightarrow> real \<Rightarrow> real \<Rightarrow> slice \<times> slice" where
  "get_mask lat lon dlat dlon =
     (let lat_min = max (lat - dlat) (-90); lat_max = min (lat + dlat) 90;
          lon_min = max (lon - dlon) (-180); lon_max = min (lon + dlon) 180;
          latmask = Slice (to_lat_index lat_max) (to_lat_index lat_min);
          lonmask = Slice (to_lon_index lon_min) (to_lon_index lon_max)
      in (latmask, lonmask))"


section \<open>Arrays and slicing\<close>

text \<open>
  Positional slicing with a \<open>slice(start, stop)\<close> of step 1 on an axis of length \<open>n\<close>:
  a negative bound counts from the end and every bound is clamped to \<open>[0, n]\<close>
  (Python's \<open>slice.indices\<close>); a stop at or before the start selects nothing.
\<close>

definition clamp_index :: "int \<Rightarrow> nat \<Rightarrow> nat" where
  "clamp_index i n = (if i < 0 then nat (max (i + int n) 0) else min (nat i) n)"

definition slice_indices :: "slice \<Rightarrow> nat \<Rightarrow> nat \<times> nat" where
  "slice_indices s n = (clamp_index (start s) n, clamp_index (stop s) n)"

definition getitem_slice :: "'a list \<Rightarrow> slice \<Rightarrow> 'a list" where
  "getitem_slice xs s =
     (let (lo, hi) = slice_indices s (length xs) in take (hi - lo) (drop lo xs))"

text \<open>
  An array of any number of axes: its shape and its items by index. A data variable has
  one axis for each dimension of the decoded file: (time, latitude, longitude) when the
  file holds several time steps, (latitude, longitude) when it holds a single message.
\<close>

record ndarray =
  shape :: "nat list"
  item :: "nat list \<Rightarrow> real"

text \<open>The decoded grib dataset: the two coordinate arrays and the data variables by name.\<close>

record xr_dataset =
  latitude :: "real list"
  longitude :: "real list"
  data_vars :: "string \<Rightarrow> ndarray option"

text \<open>
  The exceptions raised by the library calls \<open>os.mkdir\<close> and \<open>xr.open_dataset\<close>, and
  every exception the modelled code can raise or let through.
\<close>

datatype lib_error = FileExistsError | FileNotFoundError | OtherLibError string

datatype error =
    RuntimeError string
  | AttributeError string
  | KeyError string
  | TypeError string
  | IndexError string
  | LibError lib_error

text \<open>
  The spec's names for the \<open>RuntimeError\<close>s of the source, told apart by their messages.
\<close>

abbreviation OutOfRangeError :: error where
  "OutOfRangeError \<equiv> RuntimeError ''[DataSet-ERROR] time step out of bound''"

abbreviation AmbiguousRegionError :: error where
  "AmbiguousRegionError \<equiv> RuntimeError ''[DataSet-ERROR] region information ambiguous''"

abbreviation UnsupportedModeError :: error where
  "UnsupportedModeError \<equiv> RuntimeError ''[Visualize-ERROR] Mode not supported !''"

text \<open>
  \<open>a[i]\<close> with an integer: the index goes to the first axis, whatever that axis is; a
  negative index counts from the end, an index out of range raises, and so does any index
  on an array without axes.
\<close>

definition getitem_index :: "ndarray \<Rightarrow> int \<Rightarrow> error + ndarray" where
  "getitem_index a i =
     (case shape a of
        [] \<Rightarrow> Inl (IndexError ''too many indices for array'')
      | n0 # rest \<Rightarrow>
          (let n = int n0; j = (if i < 0 then i + n else i)
           in if 0 \<le> j \<and> j < n
              then Inr \<lparr>shape = rest, item = (\<lambda>idx. item a (nat j # idx))\<rparr>
              else Inl (IndexError ''index out of bounds'')))"

text \<open>
  \<open>a[rows, cols]\<close> with two slices: they go to the first two axes, and an array with
  fewer than two axes raises.
\<close>

definition getitem_slice2 :: "ndarray \<Rightarrow> slice \<Rightarrow> slice \<Rightarrow> error + ndarray" where
  "getitem_slice2 a rs cs =
     (case shape a of
        n0 # n1 # rest \<Rightarrow>
          (let (r0, r1) = slice_indices rs n0; (c0, c1) = slice_indices cs n1
           in Inr \<lparr>shape = (r1 - r0) # (c1 - c0) # rest,
                   item = (\<lambda>idx. case idx of
                                    i # j # others \<Rightarrow> item a ((r0 + i) # (c0 + j) # others)
                                  | _ \<Rightarrow> 0)\<rparr>)
      | _ \<Rightarrow> Inl (IndexError ''too many indices for array''))"

definition getitem_var :: "xr_dataset \<Rightarrow> string \<Rightarrow> error + ndarray" where
  "getitem_var ds name = (case data_vars ds name of None \<Rightarrow> Inl (KeyError name) | Some a \<Rightarrow> Inr a)"

section \<open>\<open>DataSet\<close>\<close>

record DataSet =
  array :: xr_dataset
  time_steps :: int
  data_var :: string

text \<open>
  \<open>DataSet.getMesh\<close>. An argument left out is \<open>None\<close>. The result is the triple
  \<open>(latmesh, lonmesh, fieldmesh)\<close>.
\<close>

definition getMesh ::
  "DataSet \<Rightarrow> int \<Rightarrow> real option \<Rightarrow> real option \<Rightarrow> real option \<Rightarrow> real option
     \<Rightarrow> error + (real list \<times> real list \<times> ndarray)" where
  "getMesh self time_step lat lon dlat dlon =
     (if time_step \<ge> time_steps self then Inl (RuntimeError ''[DataSet-ERROR] time step out of bound'')
      else if lat \<noteq> None \<and> lon \<noteq> None \<and> dlat \<noteq> None \<and> dlon \<noteq> None then
        (let (latmask, lonmask) = get_mask (the lat) (the lon) (the dlat) (the dlon);
             latmesh = getitem_slice (latitude (array self)) latmask;
             lonmesh = getitem_slice (longitude (array self)) lonmask
         in case getitem_var (array self) (data_var self) of
              Inl e \<Rightarrow> Inl e
            | Inr v \<Rightarrow>
                (case getitem_index v time_step of
                   Inl e \<Rightarrow> Inl e
                 | Inr f \<Rightarrow>
                     (case getitem_slice2 f latmask lonmask of
                        Inl e \<Rightarrow> Inl e
                      | Inr fieldmesh \<Rightarrow> Inr (latmesh, lonmesh, fieldmesh))))
      else if lat = None \<and> lon = None \<and> dlat = None \<and> dlon = None then
        (let latmesh = latitude (array self);
             lonmesh = longitude (array self)
         in case getitem_var (array self) (data_var self) of
              Inl e \<Rightarrow> Inl e
            | Inr v \<Rightarrow>
                (case getitem_index v time_step of
                   Inl e \<Rightarrow> Inl e
                 | Inr fieldmesh \<Rightarrow> Inr (latmesh, lonmesh, fieldmesh)))
      else Inl (RuntimeError ''[DataSet-ERROR] region information ambiguous''))"

text \<open>
  What the caller reads off a result of \<open>getMesh\<close>: \<open>len(lat_values)\<close>,
  \<open>len(lon_values)\<close> and \<open>field_values.shape\<close>.
\<close>

definition mesh_shape ::
  "error + (real list \<times> real list \<times> ndarray) \<Rightarrow> error + (nat \<times> nat \<times> nat list)" where
  "mesh_shape r =
     (case r of
        Inl e \<Rightarrow> Inl e
      | Inr (lat_values, lon_values, field_values) \<Rightarrow>
          Inr (length lat_values, length lon_values, shape field_values))"


section \<open>\<open>Visualize\<close>\<close>

text \<open>
  The outside world of the constructor: \<open>os.mkdir\<close> (\<open>None\<close> when the directory was
  created, the exception otherwise) and \<open>xr.open_dataset\<close>.
\<close>

record env =
  os_mkdir :: "string \<Rightarrow> lib_error option"
  open_dataset :: "string \<Rightarrow> lib_error + xr_dataset"

text \<open>\<open>os.path.join\<close> of two components (POSIX).\<close>

definition path_join :: "string \<Rightarrow> string \<Rightarrow> string" where
  "path_join a b =
     (if b \<noteq> [] \<and> hd b = CHR ''/'' then b
      else if a = [] \<or> last a = CHR ''/'' then a @ b
      else a @ ''/'' @ b)"

datatype projection = PlateCarree | Projection string

text \<open>
  A \<open>Visualize\<close> instance is the dictionary of the attributes assigned to \<open>self\<close>;
  reading an attribute that was never assigned raises \<open>AttributeError\<close>.
\<close>

datatype pyval =
    PyNone
  | PyInt int
  | PyStr string
  | PyProjection projection
  | PyTimeSteps "(string \<times> int) list"
  | PyDatasets "(string \<times> DataSet) list"

type_synonym Visualize = "string \<Rightarrow> pyval option"

definition getattr :: "Visualize \<Rightarrow> string \<Rightarrow> error + pyval" where
  "getattr self name = (case self name of None \<Rightarrow> Inl (AttributeError name) | Some v \<Rightarrow> Inr v)"

text \<open>
  \<open>Visualize.create_dir\<close>: only \<open>FileExistsError\<close> is caught, every other exception of
  \<open>os.mkdir\<close> propagates.
\<close>

definition create_dir :: "env \<Rightarrow> string \<Rightarrow> error + unit" where
  "create_dir e dir =
     (case os_mkdir e dir of
        None \<Rightarrow> Inr ()
      | Some FileExistsError \<Rightarrow> Inr ()
      | Some err \<Rightarrow> Inl (LibError err))"

text \<open>
  The loop of the constructor over \<open>data_paths.items()\<close>, with \<open>self.datasets\<close> as the
  accumulator; a dictionary is an association list in insertion order.
\<close>

fun load_datasets ::
  "env \<Rightarrow> (string \<times> int) list option \<Rightarrow> (string \<times> string) list \<Rightarrow> (string \<times> DataSet) list
     \<Rightarrow> error + (string \<times> DataSet) list" where
  "load_datasets e ts [] datasets = Inr datasets"
| "load_datasets e ts ((data_name, data_path) # rest) datasets =
     (case open_dataset e data_path of
        Inl err \<Rightarrow> Inl (LibError err)
      | Inr ds \<Rightarrow>
          (case (case ts of
                   None \<Rightarrow> Inr 1
                 | Some m \<Rightarrow> (case map_of m data_name of
                                None \<Rightarrow> Inl (KeyError data_name)
                              | Some n \<Rightarrow> Inr n)) of
             Inl err \<Rightarrow> Inl err
           | Inr time_step \<Rightarrow>
               load_datasets e ts rest
                 (AList.update data_name
                    \<lparr>array = ds, time_steps = time_step, data_var = data_name\<rparr> datasets)))"

text \<open>
  \<open>Visualize.__init__\<close>, the attributes in the order the source assigns them. The
  parameter \<open>mode\<close> is checked and not stored.
\<close>

definition init ::
  "env \<Rightarrow> string \<Rightarrow> (string \<times> string) list \<Rightarrow> string \<Rightarrow> string \<Rightarrow> projection
     \<Rightarrow> (string \<times> int) list option \<Rightarrow> error + Visualize" where
  "init e task_name data_paths outputs_dir mode proj ts =
     (let self = Map.empty
            (''datasets'' \<mapsto> PyDatasets [],
             ''size'' \<mapsto> PyInt (int (length data_paths)),
             ''task_name'' \<mapsto> PyStr task_name,
             ''time_steps'' \<mapsto> (case ts of None \<Rightarrow> PyNone | Some m \<Rightarrow> PyTimeSteps m),
             ''projection'' \<mapsto> PyProjection proj,
             ''out_dir'' \<mapsto> PyStr (path_join outputs_dir task_name))
      in case create_dir e (path_join outputs_dir task_name) of
           Inl err \<Rightarrow> Inl err
         | Inr _ \<Rightarrow>
             if mode \<noteq> ''scalar'' \<and> mode \<noteq> ''vector''
             then Inl (RuntimeError ''[Visualize-ERROR] Mode not supported !'')
             else
               (let self = self
                      (''frame_dir'' \<mapsto> PyStr (path_join (path_join outputs_dir task_name) ''frame''),
                       ''anim_dir'' \<mapsto> PyStr (path_join (path_join outputs_dir task_name) ''animation''))
                in case load_datasets e ts data_paths [] of
                     Inl err \<Rightarrow> Inl err
                   | Inr datasets \<Rightarrow> Inr (self(''datasets'' \<mapsto> PyDatasets datasets))))"

text \<open>
  \<open>len(self.datasets.keys())\<close>; and \<open>(self.datasets.keys())[i]\<close>, which raises: a
  \<open>dict_keys\<close> view has no subscript.
\<close>

definition len_keys :: "Visualize \<Rightarrow> error + nat" where
  "len_keys self =
     (case getattr self ''datasets'' of
        Inl err \<Rightarrow> Inl err
      | Inr (PyDatasets d) \<Rightarrow> Inr (length (map fst d))
      | Inr _ \<Rightarrow> Inl (AttributeError ''keys''))"

definition keys_subscript :: "Visualize \<Rightarrow> nat \<Rightarrow> error + string" where
  "keys_subscript self i =
     (case getattr self ''datasets'' of
        Inl err \<Rightarrow> Inl err
      | Inr (PyDatasets d) \<Rightarrow> Inl (TypeError ''dict_keys object is not subscriptable'')
      | Inr _ \<Rightarrow> Inl (AttributeError ''keys''))"

text \<open>
  \<open>Visualize.populate_frame\<close>. In both branches the statement after the count check
  subscripts \<open>self.datasets.keys()\<close> and raises, so the model ends there: no statement
  after it is ever reached.
\<close>

definition populate_frame ::
  "Visualize \<Rightarrow> real option \<Rightarrow> real option \<Rightarrow> real option \<Rightarrow> real option \<Rightarrow> string option
     \<Rightarrow> error + unit" where
  "populate_frame self lat lon dlat dlon title =
     (case getattr self ''mode'' of
        Inl err \<Rightarrow> Inl err
      | Inr mode \<Rightarrow>
          if mode = PyStr ''scalar'' then
            (case len_keys self of
               Inl err \<Rightarrow> Inl err
             | Inr n \<Rightarrow>
                 if n \<noteq> 1
                 then Inl (RuntimeError ''[Visualizer-ERROR] Incorrect number of datasets for scalar mode'')
                 else (case keys_subscript self 0 of Inl err \<Rightarrow> Inl err | Inr data_name \<Rightarrow> Inr ()))
          else
            (case len_keys self of
               Inl err \<Rightarrow> Inl err
             | Inr n \<Rightarrow>
                 if n \<noteq> 3
                 then Inl (RuntimeError ''[Visualizer-ERROR] Incorrect number of datasets for vector mode'')
                 else (case keys_subscript self 0 of Inl err \<Rightarrow> Inl err | Inr u_name \<Rightarrow> Inr ())))"

text \<open>\<open>Visualize.animate_from_frames\<close>, which opens as \<open>populate_frame\<close> does.\<close>

definition animate_from_frames :: "Visualize \<Rightarrow> error + unit" where
  "animate_from_frames self =
     (case getattr self ''mode'' of
        Inl err \<Rightarrow> Inl err
      | Inr mode \<Rightarrow>
          if mode = PyStr ''scalar'' then
            (case len_keys self of
               Inl err \<Rightarrow> Inl err
             | Inr n \<Rightarrow>
                 if n \<noteq> 1
                 then Inl (RuntimeError ''[Visualizer-ERROR] Incorrect number of datasets for scalar mode'')
                 else (case keys_subscript self 0 of Inl err \<Rightarrow> Inl err | Inr data_name \<Rightarrow> Inr ()))
          else
            (case len_keys self of
               Inl err \<Rightarrow> Inl err
             | Inr n \<Rightarrow>
                 if n \<noteq> 3
                 then Inl (RuntimeError ''[Visualizer-ERROR] Incorrect number of datasets for vector mode'')
                 else (case keys_subscript self 0 of Inl err \<Rightarrow> Inl err | Inr u_name \<Rightarrow> Inr ())))"


section \<open>Concrete inputs\<close>

text \<open>
  A three-by-two corner of the quarter-degree grid, registered as \<open>u100\<close>: once decoded
  from a file with a time axis of one step, once from a file with a single message, whose
  variable has the axes (latitude, longitude) only. Both carry the one time step the
  constructor declares when no step count is given. An environment in which the output
  directory can be created and both files can be opened, and one in which the parent of the
  output directory is missing.
\<close>

definition corner_var :: ndarray where
  "corner_var = \<lparr>shape = [1, 3, 2], item = (\<lambda>idx. real (sum_list idx))\<rparr>"

definition corner_grid :: xr_dataset where
  "corner_grid =
     \<lparr>latitude = [90, 89.75, 89.5], longitude = [-180, -179.75],
      data_vars = (\<lambda>name. if name = ''u100'' then Some corner_var else None)\<rparr>"

definition corner_u100 :: DataSet where
  "corner_u100 = \<lparr>array = corner_grid, time_steps = 1, data_var = ''u100''\<rparr>"

definition single_message_var :: ndarray where
  "single_message_var = \<lparr>shape = [3, 2], item = (\<lambda>idx. real (sum_list idx))\<rparr>"

definition single_message_grid :: xr_dataset where
  "single_message_grid =
     \<lparr>latitude = [90, 89.75, 89.5], longitude = [-180, -179.75],
      data_vars = (\<lambda>name. if name = ''u100'' then Some single_message_var else None)\<rparr>"

definition single_message_u100 :: DataSet where
  "single_message_u100 = \<lparr>array = single_message_grid, time_steps = 1, data_var = ''u100''\<rparr>"

definition env_ok :: env where
  "env_ok = \<lparr>os_mkdir = (\<lambda>dir. None),
             open_dataset = (\<lambda>path. if path = ''u100.grib'' then Inr corner_grid
                                      else if path = ''u100_single.grib'' then Inr single_message_grid
                                      else Inl FileNotFoundError)\<rparr>"

definition env_no_parent :: env where
  "env_no_parent = \<lparr>os_mkdir = (\<lambda>dir. Some FileNotFoundError),
                    open_dataset = (\<lambda>path. Inl FileNotFoundError)\<rparr>"


section \<open>Properties of the index arithmetic\<close>

lemma py_int_nonneg: "0 \<le> x \<Longrightarrow> py_int x = \<lfloor>x\<rfloor>"
  by (simp add: py_int_def)

lemma py_int_bounds:
  assumes "0 \<le> x" "x \<le> real_of_int n"
  shows "0 \<le> py_int x" and "py_int x \<le> n"
proof -
  have e: "py_int x = \<lfloor>x\<rfloor>" using assms(1) by (rule py_int_nonneg)
  show "0 \<le> py_int x" unfolding e using assms(1) by simp
  have "\<lfloor>x\<rfloor> \<le> \<lfloor>real_of_int n\<rfloor>" using assms(2) by (rule floor_mono)
  then show "py_int x \<le> n" unfolding e by simp
qed



text \<open>
  C1, as stated, fails: at the south pole, latitude \<open>-90\<close>, \<open>to_lat_index\<close> returns
  \<open>720\<close>, which is above \<open>90 * 4 = 360\<close>.
\<close>

theorem C1_lat_bound_counterexample:
  "(-90::real) \<le> -90 \<and> (-90::real) \<le> 90 \<and> to_lat_index (-90) = 720
     \<and> \<not> to_lat_index (-90) \<le> 90 * 4"
  by (simp add: to_lat_index_def py_int_def)

text \<open>
  C1, amended: for every latitude in \<open>[-90, 90]\<close> the row index lies in
  \<open>[0, 180 * 4]\<close>, and for every longitude in \<open>[-180, 180]\<close> the column index lies in
  \<open>[0, 360 * 4]\<close>.
\<close>

theorem C1_index_bounds:
  "(-90 \<le> lat \<and> lat \<le> 90 \<longrightarrow> 0 \<le> to_lat_index lat \<and> to_lat_index lat \<le> 180 * 4) \<and>
   (-180 \<le> lon \<and> lon \<le> 180 \<longrightarrow> 0 \<le> to_lon_index lon \<and> to_lon_index lon \<le> 360 * 4)"
proof (intro conjI impI)
  assume h: "-90 \<le> lat \<and> lat \<le> 90"
  then have b: "0 \<le> (90 - lat) * 4" "(90 - lat) * 4 \<le> real_of_int (180 * 4)" by simp_all
  show "0 \<le> to_lat_index lat" and "to_lat_index lat \<le> 180 * 4"
    unfolding to_lat_index_def using py_int_bounds [OF b] by blast+
next
  assume h: "-180 \<le> lon \<and> lon \<le> 180"
  then have b: "0 \<le> (lon + 180) * 4" "(lon + 180) * 4 \<le> real_of_int (360 * 4)" by simp_all
  show "0 \<le> to_lon_index lon" and "to_lon_index lon \<le> 360 * 4"
    unfolding to_lon_index_def using py_int_bounds [OF b] by blast+
qed

theorem C1_index_bounds_witness:
  "((-90::real) \<le> -90 \<and> (-90::real) \<le> 90) \<and> to_lat_index (-90) = 180 * 4 \<and>
   ((-180::real) \<le> 180 \<and> (180::real) \<le> 180) \<and> to_lon_index 180 = 360 * 4 \<and>
   to_lat_index 90 = 0 \<and> to_lon_index (-180) = 0"
  using C1_index_bounds [of "-90" 180]
  by (simp add: to_lat_index_def to_lon_index_def py_int_def)

text \<open>
  C5: \<open>get_mask(40, -90, 10, 10)\<close> is the row range \<open>[160, 240)\<close>, from the index of
  latitude 50 to the index of latitude 30, and the column range \<open>[320, 400)\<close>, from the
  index of longitude -100 to the index of longitude -80; both lie inside
  \<open>[0, 720)\<close> and \<open>[0, 1440)\<close>.
\<close>

theorem C5_bounded_region_scenario:
  "get_mask 40 (-90) 10 10 = (Slice 160 240, Slice 320 400) \<and>
   to_lat_index 50 = 160 \<and> to_lat_index 30 = 240 \<and>
   to_lon_index (-100) = 320 \<and> to_lon_index (-80) = 400 \<and>
   (case get_mask 40 (-90) 10 10 of
      (r, c) \<Rightarrow> 0 \<le> start r \<and> start r \<le> stop r \<and> stop r \<le> 720 \<and>
                0 \<le> start c \<and> start c \<le> stop c \<and> stop c \<le> 1440)"
  by (simp add: get_mask_def to_lat_index_def to_lon_index_def py_int_def)

text \<open>
  C7: when the half-extents reach past both poles and both longitude edges, \<open>get_mask\<close>
  returns the ranges of the global edges themselves, the ones \<open>get_mask(0, 0, 90, 180)\<close>
  returns: rows \<open>[0, 720)\<close> and columns \<open>[0, 1440)\<close>.
\<close>

theorem C7_clamp_saturates:
  assumes "lat - dlat \<le> -90" "90 \<le> lat + dlat" "lon - dlon \<le> -180" "180 \<le> lon + dlon"
  shows "get_mask lat lon dlat dlon =
           (Slice (to_lat_index 90) (to_lat_index (-90)),
            Slice (to_lon_index (-180)) (to_lon_index 180))
       \<and> get_mask lat lon dlat dlon = get_mask 0 0 90 180
       \<and> get_mask lat lon dlat dlon = (Slice 0 720, Slice 0 1440)"
proof -
  have "max (lat - dlat) (-90) = -90" "min (lat + dlat) 90 = 90"
       "max (lon - dlon) (-180) = -180" "min (lon + dlon) 180 = 180"
    using assms by simp_all
  then show ?thesis
    by (simp add: get_mask_def to_lat_index_def to_lon_index_def py_int_def)
qed

theorem C7_clamp_saturates_witness:
  "(45::real) - 500 \<le> -90 \<and> (90::real) \<le> 45 + 500 \<and>
   (10::real) - 1000 \<le> -180 \<and> (180::real) \<le> 10 + 1000 \<and>
   get_mask 45 10 500 1000 = get_mask 0 0 90 180 \<and>
   get_mask 45 10 500 1000 = (Slice 0 720, Slice 0 1440)"
proof -
  have h: "(45::real) - 500 \<le> -90" "(90::real) \<le> 45 + 500"
          "(10::real) - 1000 \<le> -180" "(180::real) \<le> 10 + 1000"
    by simp_all
  from C7_clamp_saturates [OF h] h show ?thesis by blast
qed




section \<open>Properties of \<open>getMesh\<close>\<close>

lemma getitem_var_error: "getitem_var ds name = Inl e \<Longrightarrow> e = KeyError name"
  by (simp add: getitem_var_def split: option.splits)

lemma getitem_index_error: "getitem_index a i = Inl e \<Longrightarrow> \<exists>m. e = IndexError m"
  by (auto simp: getitem_index_def Let_def split: list.splits if_splits)

lemma getitem_slice2_error: "getitem_slice2 a rs cs = Inl e \<Longrightarrow> \<exists>m. e = IndexError m"
  by (auto simp: getitem_slice2_def Let_def split: list.splits prod.splits)

lemma getMesh_out_of_range:
  "time_steps self \<le> time_step \<Longrightarrow> getMesh self time_step lat lon dlat dlon = Inl OutOfRangeError"
  by (simp add: getMesh_def)

lemma getMesh_region:
  "time_step < time_steps self \<Longrightarrow>
   getMesh self time_step (Some la) (Some lo) (Some dla) (Some dlo) =
     (case getitem_var (array self) (data_var self) of
        Inl e \<Rightarrow> Inl e
      | Inr v \<Rightarrow>
          (case getitem_index v time_step of
             Inl e \<Rightarrow> Inl e
           | Inr f \<Rightarrow>
               (case getitem_slice2 f (fst (get_mask la lo dla dlo)) (snd (get_mask la lo dla dlo)) of
                  Inl e \<Rightarrow> Inl e
                | Inr fieldmesh \<Rightarrow>
                    Inr (getitem_slice (latitude (array self)) (fst (get_mask la lo dla dlo)),
                         getitem_slice (longitude (array self)) (snd (get_mask la lo dla dlo)),
                         fieldmesh))))"
  by (cases "get_mask la lo dla dlo") (simp add: getMesh_def Let_def split: sum.splits)

lemma getMesh_whole:
  "time_step < time_steps self \<Longrightarrow>
   getMesh self time_step None None None None =
     (case getitem_var (array self) (data_var self) of
        Inl e \<Rightarrow> Inl e
      | Inr v \<Rightarrow>
          (case getitem_index v time_step of
             Inl e \<Rightarrow> Inl e
           | Inr fieldmesh \<Rightarrow> Inr (latitude (array self), longitude (array self), fieldmesh)))"
  by (simp add: getMesh_def Let_def)

lemma getMesh_partial:
  assumes "time_step < time_steps self"
    and "\<not> (lat \<noteq> None \<and> lon \<noteq> None \<and> dlat \<noteq> None \<and> dlon \<noteq> None)"
    and "\<not> (lat = None \<and> lon = None \<and> dlat = None \<and> dlon = None)"
  shows "getMesh self time_step lat lon dlat dlon = Inl AmbiguousRegionError"
  using assms by (cases lat; cases lon; cases dlat; cases dlon) (simp_all add: getMesh_def)

lemma getMesh_error_cases:
  assumes "time_step < time_steps self"
    and "(lat \<noteq> None \<and> lon \<noteq> None \<and> dlat \<noteq> None \<and> dlon \<noteq> None) \<or>
         (lat = None \<and> lon = None \<and> dlat = None \<and> dlon = None)"
    and "getMesh self time_step lat lon dlat dlon = Inl e"
  shows "e = KeyError (data_var self) \<or> (\<exists>m. e = IndexError m)"
proof -
  from assms(2) consider
      (region) la lo dla dlo where "lat = Some la" "lon = Some lo" "dlat = Some dla" "dlon = Some dlo"
    | (whole) "lat = None" "lon = None" "dlat = None" "dlon = None"
    by auto
  then show ?thesis
  proof cases
    case region
    with assms(1,3) show ?thesis
      by (auto simp: getMesh_region split: sum.splits
            dest: getitem_var_error getitem_index_error getitem_slice2_error)
  next
    case whole
    with assms(1,3) show ?thesis
      by (auto simp: getMesh_whole split: sum.splits dest: getitem_var_error getitem_index_error)
  qed
qed

lemma count_partial:
  "length (filter (\<lambda>x. x \<noteq> None) [lat, lon, dlat, dlon]) \<in> {1, 2, 3} \<longleftrightarrow>
     \<not> (lat \<noteq> None \<and> lon \<noteq> None \<and> dlat \<noteq> None \<and> dlon \<noteq> None) \<and>
     \<not> (lat = None \<and> lon = None \<and> dlat = None \<and> dlon = None)"
  by (cases lat; cases lon; cases dlat; cases dlon) simp_all

lemma count_full_or_none:
  "length (filter (\<lambda>x. x \<noteq> None) [lat, lon, dlat, dlon]) \<in> {0, 4} \<longleftrightarrow>
     (lat \<noteq> None \<and> lon \<noteq> None \<and> dlat \<noteq> None \<and> dlon \<noteq> None) \<or>
     (lat = None \<and> lon = None \<and> dlat = None \<and> dlon = None)"
  by (cases lat; cases lon; cases dlat; cases dlon) simp_all

text \<open>
  C3: with the time step within bounds, \<open>getMesh\<close> called with exactly one, two or three
  of \<open>lat\<close>, \<open>lon\<close>, \<open>dlat\<close>, \<open>dlon\<close> supplied raises the ambiguous-region
  error; called with none or with all four it never raises that error.
\<close>

theorem C3_ambiguous_region:
  "(time_step < time_steps self \<and>
    length (filter (\<lambda>x. x \<noteq> None) [lat, lon, dlat, dlon]) \<in> {1, 2, 3} \<longrightarrow>
      getMesh self time_step lat lon dlat dlon = Inl AmbiguousRegionError) \<and>
   (length (filter (\<lambda>x. x \<noteq> None) [lat, lon, dlat, dlon]) \<in> {0, 4} \<longrightarrow>
      getMesh self time_step lat lon dlat dlon \<noteq> Inl AmbiguousRegionError)"
proof (intro conjI impI)
  assume "time_step < time_steps self \<and>
    length (filter (\<lambda>x. x \<noteq> None) [lat, lon, dlat, dlon]) \<in> {1, 2, 3}"
  then show "getMesh self time_step lat lon dlat dlon = Inl AmbiguousRegionError"
    unfolding count_partial by (intro getMesh_partial) blast+
next
  assume "length (filter (\<lambda>x. x \<noteq> None) [lat, lon, dlat, dlon]) \<in> {0, 4}"
  then have fn: "(lat \<noteq> None \<and> lon \<noteq> None \<and> dlat \<noteq> None \<and> dlon \<noteq> None) \<or>
     (lat = None \<and> lon = None \<and> dlat = None \<and> dlon = None)"
    unfolding count_full_or_none .
  show "getMesh self time_step lat lon dlat dlon \<noteq> Inl AmbiguousRegionError"
  proof (cases "time_step < time_steps self")
    case True
    show ?thesis
    proof
      assume "getMesh self time_step lat lon dlat dlon = Inl AmbiguousRegionError"
      from getMesh_error_cases [OF True fn this] show False by auto
    qed
  next
    case False
    then show ?thesis by (simp add: getMesh_out_of_range)
  qed
qed

theorem C3_ambiguous_region_witness:
  "(0 < time_steps corner_u100 \<and>
    length (filter (\<lambda>x. x \<noteq> None) [Some 40, Some (-90), None, None :: real option]) \<in> {1, 2, 3}) \<and>
   getMesh corner_u100 0 (Some 40) (Some (-90)) None None = Inl AmbiguousRegionError \<and>
   length (filter (\<lambda>x. x \<noteq> None) [None, None, None, None :: real option]) \<in> {0, 4} \<and>
   getMesh corner_u100 0 None None None None \<noteq> Inl AmbiguousRegionError"
proof -
  have h1: "0 < time_steps corner_u100 \<and>
    length (filter (\<lambda>x. x \<noteq> None) [Some 40, Some (-90), None, None :: real option]) \<in> {1, 2, 3}"
    by (simp add: corner_u100_def)
  have h2: "length (filter (\<lambda>x. x \<noteq> None) [None, None, None, None :: real option]) \<in> {0, 4}"
    by simp
  from C3_ambiguous_region [of 0 corner_u100 "Some 40" "Some (-90)" None None] h1
  have a: "getMesh corner_u100 0 (Some 40) (Some (-90)) None None = Inl AmbiguousRegionError"
    by blast
  from C3_ambiguous_region [of 0 corner_u100 None None None None] h2
  have b: "getMesh corner_u100 0 None None None None \<noteq> Inl AmbiguousRegionError"
    by blast
  from h1 h2 a b show ?thesis by blast
qed

text \<open>
  C4: \<open>getMesh\<close> raises the out-of-range error exactly when the requested time step is at
  least the declared number of time steps; so it does for time step 24 on the dataset
  \<open>u100\<close> declared with 24 time steps, whatever its grid.
\<close>

theorem C4_out_of_range_iff:
  "(getMesh self time_step lat lon dlat dlon = Inl OutOfRangeError \<longleftrightarrow> time_steps self \<le> time_step) \<and>
   getMesh \<lparr>array = a, time_steps = 24, data_var = ''u100''\<rparr> 24 None None None None = Inl OutOfRangeError"
proof
  show "getMesh self time_step lat lon dlat dlon = Inl OutOfRangeError \<longleftrightarrow> time_steps self \<le> time_step"
  proof (cases "time_steps self \<le> time_step")
    case True
    then show ?thesis by (simp add: getMesh_out_of_range)
  next
    case False
    then have lt: "time_step < time_steps self" by simp
    have "getMesh self time_step lat lon dlat dlon \<noteq> Inl OutOfRangeError"
    proof (cases "(lat \<noteq> None \<and> lon \<noteq> None \<and> dlat \<noteq> None \<and> dlon \<noteq> None) \<or>
         (lat = None \<and> lon = None \<and> dlat = None \<and> dlon = None)")
      case True
      show ?thesis
      proof
        assume "getMesh self time_step lat lon dlat dlon = Inl OutOfRangeError"
        from getMesh_error_cases [OF lt True this] show False by auto
      qed
    next
      case False
      then have "getMesh self time_step lat lon dlat dlon = Inl AmbiguousRegionError"
        by (intro getMesh_partial [OF lt]) blast+
      then show ?thesis by simp
    qed
    with False show ?thesis by simp
  qed
  show "getMesh \<lparr>array = a, time_steps = 24, data_var = ''u100''\<rparr> 24 None None None None = Inl OutOfRangeError"
    by (simp add: getMesh_def)
qed

theorem C4_out_of_range_iff_witness:
  "(getMesh corner_u100 1 None None None None = Inl OutOfRangeError) \<and> time_steps corner_u100 \<le> 1 \<and>
   getMesh corner_u100 0 None None None None \<noteq> Inl OutOfRangeError \<and> \<not> time_steps corner_u100 \<le> 0"
proof -
  have h: "time_steps corner_u100 \<le> 1" "\<not> time_steps corner_u100 \<le> 0"
    by (simp_all add: corner_u100_def)
  from C4_out_of_range_iff [of corner_u100 1 None None None None] C4_out_of_range_iff [of corner_u100 0 None None None None] h
  show ?thesis by blast
qed

text \<open>
  C10: the time-step check comes first: with the time step at or past the declared count
  and the region only partly specified, \<open>getMesh\<close> raises the out-of-range error and not
  the ambiguous-region error.
\<close>

theorem C10_time_check_first:
  assumes "time_steps self \<le> time_step"
    and "length (filter (\<lambda>x. x \<noteq> None) [lat, lon, dlat, dlon]) \<in> {1, 2, 3}"
  shows "getMesh self time_step lat lon dlat dlon = Inl OutOfRangeError \<and>
         getMesh self time_step lat lon dlat dlon \<noteq> Inl AmbiguousRegionError"
  using assms(1) by (simp add: getMesh_out_of_range)

theorem C10_time_check_first_witness:
  "time_steps corner_u100 \<le> 5 \<and>
   length (filter (\<lambda>x. x \<noteq> None) [Some 40, None, Some 10, None :: real option]) \<in> {1, 2, 3} \<and>
   getMesh corner_u100 5 (Some 40) None (Some 10) None = Inl OutOfRangeError \<and>
   getMesh corner_u100 5 (Some 40) None (Some 10) None \<noteq> Inl AmbiguousRegionError"
proof -
  have h: "time_steps corner_u100 \<le> 5"
    "length (filter (\<lambda>x. x \<noteq> None) [Some 40, None, Some 10, None :: real option]) \<in> {1, 2, 3}"
    by (simp_all add: corner_u100_def)
  from C10_time_check_first [OF h] h show ?thesis by blast
qed

lemma clamp_index_le: "clamp_index i n \<le> n"
  unfolding clamp_index_def by (cases "i < 0") (auto simp: max_def nat_le_iff)

lemma length_getitem_slice:
  "length (getitem_slice xs s) = snd (slice_indices s (length xs)) - fst (slice_indices s (length xs))"
proof -
  have "clamp_index (stop s) (length xs) \<le> length xs" by (rule clamp_index_le)
  then show ?thesis
    by (simp add: getitem_slice_def slice_indices_def)
qed

lemma getitem_index_shape:
  "getitem_index v i = Inr f \<Longrightarrow> shape v = n0 # rest \<Longrightarrow> shape f = rest"
  by (auto simp: getitem_index_def Let_def split: list.splits if_splits)

lemma getitem_slice2_shape:
  assumes "getitem_slice2 a rs cs = Inr f" and "shape a = [n0, n1]"
  shows "shape f = [snd (slice_indices rs n0) - fst (slice_indices rs n0),
                    snd (slice_indices cs n1) - fst (slice_indices cs n1)]"
  using assms by (auto simp: getitem_slice2_def Let_def split: prod.splits)

lemma getitem_var_Some: "getitem_var ds name = Inr v \<Longrightarrow> data_vars ds name = Some v"
  by (simp add: getitem_var_def split: option.splits)

text \<open>
  C6, as stated, fails: on the grid decoded from a single-message file the variable has
  the axes (latitude, longitude), whose lengths 3 and 2 are those of the coordinate
  arrays; \<open>getMesh\<close> at time step 0 on the whole grid succeeds, its index taking row 0 of
  the latitude axis, and returns 3 latitudes with a field of shape \<open>(2,)\<close>.
\<close>

theorem C6_single_message_counterexample:
  "data_vars (array single_message_u100) (data_var single_message_u100) = Some single_message_var \<and>
   shape single_message_var =
     [length (latitude (array single_message_u100)), length (longitude (array single_message_u100))] \<and>
   mesh_shape (getMesh single_message_u100 0 None None None None) = Inr (3, 2, [2]) \<and>
   (3::nat) \<noteq> [2] ! 0"
  by (simp add: mesh_shape_def getMesh_def single_message_u100_def single_message_grid_def
        single_message_var_def getitem_var_def getitem_index_def Let_def)

text \<open>
  C6, amended: when the data variable has the three axes (time, latitude, longitude) and
  the lengths of its latitude and longitude axes are those of the two coordinate arrays,
  every successful \<open>getMesh\<close>, on the whole grid or on a region, returns a field whose
  shape is the length of the latitude array by the length of the longitude array.
\<close>

theorem C6_shape_consistency:
  assumes var: "data_vars (array self) (data_var self) = Some var"
    and dims: "shape var = [nt, length (latitude (array self)), length (longitude (array self))]"
    and ok: "getMesh self time_step lat lon dlat dlon = Inr (lat_values, lon_values, field_values)"
  shows "shape field_values = [length lat_values, length lon_values] \<and>
         length lat_values = shape field_values ! 0 \<and>
         length lon_values = shape field_values ! 1"
proof -
  have lt: "time_step < time_steps self"
  proof (rule ccontr)
    assume "\<not> time_step < time_steps self"
    then have "getMesh self time_step lat lon dlat dlon = Inl OutOfRangeError"
      by (simp add: getMesh_out_of_range)
    with ok show False by simp
  qed
  have "(lat \<noteq> None \<and> lon \<noteq> None \<and> dlat \<noteq> None \<and> dlon \<noteq> None) \<or>
        (lat = None \<and> lon = None \<and> dlat = None \<and> dlon = None)"
  proof (rule ccontr)
    assume "\<not> ?thesis"
    then have "getMesh self time_step lat lon dlat dlon = Inl AmbiguousRegionError"
      by (intro getMesh_partial [OF lt]) blast+
    with ok show False by simp
  qed
  then consider
      (region) la lo dla dlo where "lat = Some la" "lon = Some lo" "dlat = Some dla" "dlon = Some dlo"
    | (whole) "lat = None" "lon = None" "dlat = None" "dlon = None"
    by auto
  then have "shape field_values = [length lat_values, length lon_values]"
  proof cases
    case region
    from ok obtain v f where v: "getitem_var (array self) (data_var self) = Inr v"
      and f: "getitem_index v time_step = Inr f"
      and g: "getitem_slice2 f (fst (get_mask la lo dla dlo)) (snd (get_mask la lo dla dlo)) =
                Inr field_values"
      and r: "lat_values = getitem_slice (latitude (array self)) (fst (get_mask la lo dla dlo))"
             "lon_values = getitem_slice (longitude (array self)) (snd (get_mask la lo dla dlo))"
      unfolding region getMesh_region [OF lt] by (auto split: sum.splits)
    from var getitem_var_Some [OF v] have "v = var" by simp
    with dims getitem_index_shape [OF f]
    have "shape f = [length (latitude (array self)), length (longitude (array self))]"
      by simp
    from getitem_slice2_shape [OF g this] show ?thesis
      unfolding r by (simp add: length_getitem_slice)
  next
    case whole
    from ok obtain v where v: "getitem_var (array self) (data_var self) = Inr v"
      and f: "getitem_index v time_step = Inr field_values"
      and r: "lat_values = latitude (array self)" "lon_values = longitude (array self)"
      unfolding whole getMesh_whole [OF lt] by (auto split: sum.splits)
    from var getitem_var_Some [OF v] have "v = var" by simp
    with dims getitem_index_shape [OF f] show ?thesis
      unfolding r by simp
  qed
  then show ?thesis by simp
qed

lemma corner_region:
  "\<exists>f. getMesh corner_u100 0 (Some 90) (Some (-180)) (Some 0.5) (Some 0.25) =
         Inr ([90, 89.75], [-180], f)"
  by (simp add: getMesh_def corner_u100_def corner_grid_def corner_var_def get_mask_def
        to_lat_index_def to_lon_index_def py_int_def getitem_var_def getitem_index_def
        getitem_slice_def getitem_slice2_def slice_indices_def clamp_index_def Let_def)

theorem C6_shape_consistency_witness:
  "data_vars (array corner_u100) (data_var corner_u100) = Some corner_var \<and>
   shape corner_var =
     [1, length (latitude (array corner_u100)), length (longitude (array corner_u100))] \<and>
   mesh_shape (getMesh corner_u100 0 (Some 90) (Some (-180)) (Some 0.5) (Some 0.25)) =
     Inr (2, 1, [2, 1]) \<and>
   mesh_shape (getMesh corner_u100 0 None None None None) = Inr (3, 2, [3, 2])"
proof -
  have var: "data_vars (array corner_u100) (data_var corner_u100) = Some corner_var"
    by (simp add: corner_u100_def corner_grid_def)
  have dims: "shape corner_var =
     [1, length (latitude (array corner_u100)), length (longitude (array corner_u100))]"
    by (simp add: corner_u100_def corner_grid_def corner_var_def)
  from corner_region obtain f where
    ok: "getMesh corner_u100 0 (Some 90) (Some (-180)) (Some 0.5) (Some 0.25) =
           Inr ([90, 89.75], [-180], f)"
    by blast
  from C6_shape_consistency [OF var dims ok]
  have "shape f = [length [90, 89.75 :: real], length [-180 :: real]]"
    by (rule conjunct1)
  then have sh: "shape f = [2, 1]"
    by simp
  have region: "mesh_shape (getMesh corner_u100 0 (Some 90) (Some (-180)) (Some 0.5) (Some 0.25)) =
     Inr (2, 1, [2, 1])"
    unfolding ok mesh_shape_def using sh by simp
  have whole: "mesh_shape (getMesh corner_u100 0 None None None None) = Inr (3, 2, [3, 2])"
    by (simp add: mesh_shape_def getMesh_def corner_u100_def corner_grid_def corner_var_def
          getitem_var_def getitem_index_def Let_def)
  from var dims region whole show ?thesis by blast
qed


section \<open>Properties of \<open>Visualize\<close>\<close>

lemma create_dir_error: "create_dir e dir = Inl err \<Longrightarrow> \<exists>l. err = LibError l"
  by (auto simp: create_dir_def split: option.splits lib_error.splits)

lemma load_datasets_error:
  "load_datasets e ts data_paths datasets = Inl err \<Longrightarrow> (\<exists>l. err = LibError l) \<or> (\<exists>k. err = KeyError k)"
proof (induction e ts data_paths datasets rule: load_datasets.induct)
  case (1 e ts datasets)
  then show ?case by simp
next
  case (2 e ts data_name data_path rest datasets)
  then show ?case
    by (auto split: sum.splits option.splits)
qed

lemma init_no_mode:
  assumes "init e task_name data_paths outputs_dir mode proj ts = Inr self"
  shows "self ''mode'' = None"
  using assms
  by (auto simp: init_def Let_def split: sum.splits if_splits)

lemma populate_frame_no_mode:
  "self ''mode'' = None \<Longrightarrow> populate_frame self lat lon dlat dlon title = Inl (AttributeError ''mode'')"
  by (simp add: populate_frame_def getattr_def)

lemma animate_from_frames_no_mode:
  "self ''mode'' = None \<Longrightarrow> animate_from_frames self = Inl (AttributeError ''mode'')"
  by (simp add: animate_from_frames_def getattr_def)

lemma init_empty_scalar:
  "init env_ok ''test'' [] ''outputs'' ''scalar'' PlateCarree None =
     Inr (Map.empty
            (''datasets'' \<mapsto> PyDatasets [],
             ''size'' \<mapsto> PyInt 0,
             ''task_name'' \<mapsto> PyStr ''test'',
             ''time_steps'' \<mapsto> PyNone,
             ''projection'' \<mapsto> PyProjection PlateCarree,
             ''out_dir'' \<mapsto> PyStr ''outputs/test'',
             ''frame_dir'' \<mapsto> PyStr ''outputs/test/frame'',
             ''anim_dir'' \<mapsto> PyStr ''outputs/test/animation'',
             ''datasets'' \<mapsto> PyDatasets []))"
  by (simp add: init_def env_ok_def create_dir_def path_join_def Let_def)

lemma init_single_message:
  "(case init env_ok ''test'' [(''u100'', ''u100_single.grib'')] ''outputs'' ''scalar''
           PlateCarree None of
      Inl err \<Rightarrow> False
    | Inr self \<Rightarrow> getattr self ''datasets'' = Inr (PyDatasets [(''u100'', single_message_u100)]))"
  by (simp add: init_def env_ok_def create_dir_def path_join_def Let_def getattr_def
        single_message_u100_def)

lemma populate_frame_count_check:
  assumes "self ''mode'' = Some (PyStr mode)" and "len_keys self = Inr n"
  shows "mode = ''scalar'' \<Longrightarrow> n \<noteq> 1 \<Longrightarrow>
           populate_frame self lat lon dlat dlon title =
             Inl (RuntimeError ''[Visualizer-ERROR] Incorrect number of datasets for scalar mode'')"
    and "mode \<noteq> ''scalar'' \<Longrightarrow> n \<noteq> 3 \<Longrightarrow>
           populate_frame self lat lon dlat dlon title =
             Inl (RuntimeError ''[Visualizer-ERROR] Incorrect number of datasets for vector mode'')"
  using assms by (simp_all add: populate_frame_def getattr_def)

text \<open>
  C2: the constructor never assigns \<open>self.mode\<close>. On the object constructed in scalar
  mode with no dataset, where the claim expects the dataset-count error, both
  \<open>populate_frame\<close> and \<open>animate_from_frames\<close> raise \<open>AttributeError\<close> for \<open>mode\<close>
  before the count is looked at.
\<close>

theorem C2_mode_attribute_missing:
  "(case init env_ok ''test'' [] ''outputs'' ''scalar'' PlateCarree None of
      Inl err \<Rightarrow> False
    | Inr self \<Rightarrow>
        len_keys self = Inr 0 \<and>
        populate_frame self None None None None None = Inl (AttributeError ''mode'') \<and>
        animate_from_frames self = Inl (AttributeError ''mode''))"
  by (simp add: init_empty_scalar len_keys_def populate_frame_def animate_from_frames_def getattr_def)

text \<open>
  C9, as stated, fails: the constructor creates the output directory before it checks the
  mode, so with an unsupported mode and an output directory whose parent is missing it
  raises the \<open>FileNotFoundError\<close> of \<open>os.mkdir\<close>, not the unsupported-mode error.
\<close>

theorem C9_mkdir_failure_counterexample:
  "''contour'' \<noteq> ''scalar'' \<and> ''contour'' \<noteq> ''vector'' \<and>
   init env_no_parent ''test'' [] ''/missing/outputs'' ''contour'' PlateCarree None =
     Inl (LibError FileNotFoundError) \<and>
   init env_no_parent ''test'' [] ''/missing/outputs'' ''contour'' PlateCarree None \<noteq>
     Inl UnsupportedModeError"
  by (simp add: init_def env_no_parent_def create_dir_def Let_def)

text \<open>
  C9, amended: when creating the output directory does not fail (it is created or exists
  already), a mode that is neither \<open>scalar\<close> nor \<open>vector\<close> makes the constructor raise
  the unsupported-mode error; with mode \<open>scalar\<close> or \<open>vector\<close> the constructor never
  raises that error.
\<close>

theorem C9_unsupported_mode:
  "(create_dir e (path_join outputs_dir task_name) = Inr () \<and> mode \<noteq> ''scalar'' \<and> mode \<noteq> ''vector'' \<longrightarrow>
      init e task_name data_paths outputs_dir mode proj ts = Inl UnsupportedModeError) \<and>
   (mode = ''scalar'' \<or> mode = ''vector'' \<longrightarrow>
      init e task_name data_paths outputs_dir mode proj ts \<noteq> Inl UnsupportedModeError)"
proof (intro conjI impI)
  assume "create_dir e (path_join outputs_dir task_name) = Inr () \<and> mode \<noteq> ''scalar'' \<and> mode \<noteq> ''vector''"
  then show "init e task_name data_paths outputs_dir mode proj ts = Inl UnsupportedModeError"
    by (simp add: init_def Let_def)
next
  assume m: "mode = ''scalar'' \<or> mode = ''vector''"
  show "init e task_name data_paths outputs_dir mode proj ts \<noteq> Inl UnsupportedModeError"
  proof
    assume a: "init e task_name data_paths outputs_dir mode proj ts = Inl UnsupportedModeError"
    show False
    proof (cases "create_dir e (path_join outputs_dir task_name)")
      case (Inl err)
      with a have "err = UnsupportedModeError" by (simp add: init_def Let_def)
      with create_dir_error [OF Inl] show False by auto
    next
      case (Inr u)
      show False
      proof (cases "load_datasets e ts data_paths []")
        case (Inl err)
        with a Inr m have "err = UnsupportedModeError" by (auto simp: init_def Let_def)
        with load_datasets_error [OF Inl] show False by auto
      next
        case (Inr ds)
        with a \<open>create_dir e (path_join outputs_dir task_name) = Inr u\<close> m show False
          by (auto simp: init_def Let_def)
      qed
    qed
  qed
qed

theorem C9_unsupported_mode_witness:
  "(create_dir env_ok (path_join ''outputs'' ''test'') = Inr () \<and> ''contour'' \<noteq> ''scalar'' \<and> ''contour'' \<noteq> ''vector'') \<and>
   init env_ok ''test'' [(''u100'', ''u100.grib'')] ''outputs'' ''contour'' PlateCarree None = Inl UnsupportedModeError \<and>
   (''vector'' = ''scalar'' \<or> ''vector'' = ''vector'') \<and>
   init env_ok ''test'' [(''u100'', ''u100.grib'')] ''outputs'' ''vector'' PlateCarree None \<noteq> Inl UnsupportedModeError"
proof -
  have h1: "create_dir env_ok (path_join ''outputs'' ''test'') = Inr () \<and> ''contour'' \<noteq> ''scalar'' \<and> ''contour'' \<noteq> ''vector''"
    by (simp add: create_dir_def env_ok_def)
  have h2: "''vector'' = ''scalar'' \<or> ''vector'' = ''vector''" by simp
  from C9_unsupported_mode [of env_ok "''outputs''" "''test''" "''contour''" "[(''u100'', ''u100.grib'')]" PlateCarree None] h1
  have a: "init env_ok ''test'' [(''u100'', ''u100.grib'')] ''outputs'' ''contour'' PlateCarree None = Inl UnsupportedModeError"
    by blast
  from C9_unsupported_mode [of env_ok "''outputs''" "''test''" "''vector''" "[(''u100'', ''u100.grib'')]" PlateCarree None] h2
  have b: "init env_ok ''test'' [(''u100'', ''u100.grib'')] ''outputs'' ''vector'' PlateCarree None \<noteq> Inl UnsupportedModeError"
    by blast
  from h1 h2 a b show ?thesis by blast
qed

end
